theory Spec2Isabelle
  imports Complex_Main "HOL-Library.AList"
begin

section \<open>Python values, dictionaries and exceptions\<close>

text \<open>
  The predictor of \<^verbatim>\<open>src/models/predictor.py\<close> receives a dictionary from attribute
  names to numbers or categorical code strings. Python's \<^verbatim>\<open>int\<close> is unbounded and is an
  \<open>int\<close> here; a \<^verbatim>\<open>float\<close> is idealised as a \<open>real\<close> (no rounding, no overflow).
\<close>

datatype pyval = PyInt int | PyFloat real | PyStr string

text \<open>An exception is its class name and the text that \<^verbatim>\<open>str(e)\<close> returns.\<close>

datatype exn = Exn string string

fun str_exn :: "exn \<Rightarrow> string" where
  "str_exn (Exn cls msg) = msg"

text \<open>
  A \<^verbatim>\<open>dict\<close> keeps its keys in insertion order, each key once: an association list.
  \<^verbatim>\<open>d[k] = v\<close> replaces the value of a key in place and appends a new key at the end,
  which is \<^const>\<open>AList.update\<close>; \<^verbatim>\<open>d.get(k, dflt)\<close> is \<open>dict_get\<close>.
\<close>

type_synonym 'v dict = "(string \<times> 'v) list"

definition dict_get :: "'v dict \<Rightarrow> string \<Rightarrow> 'v \<Rightarrow> 'v" where
  "dict_get d k dflt = (case map_of d k of None \<Rightarrow> dflt | Some v \<Rightarrow> v)"

text \<open>
  What the interpreter supplies and the repository does not define: parsing a string
  as a float (\<^verbatim>\<open>float(s)\<close>, \<open>None\<close> when it raises), \<^verbatim>\<open>repr\<close> of a string, and the
  format \<^verbatim>\<open>f"{x:,.2f}"\<close>.
\<close>

record builtins =
  float_of_str :: "string \<Rightarrow> real option"
  repr_str :: "string \<Rightarrow> string"
  fmt_money :: "real \<Rightarrow> string"

text \<open>
  \<^verbatim>\<open>float(value)\<close>: a float is returned as it is; an int converts unless it rounds past
  the largest double, \<open>2 ^ 1024 - 2 ^ 971\<close>, which is from \<open>2 ^ 1024 - 2 ^ 970\<close> on and
  raises OverflowError (below that bound the conversion is taken as exact, a float being
  a real here); a string is parsed or raises ValueError.
\<close>

definition float_int_limit :: int where
  "float_int_limit = 2 ^ 1024 - 2 ^ 970"

fun py_float :: "builtins \<Rightarrow> pyval \<Rightarrow> exn + real" where
  "py_float b (PyInt n) =
     (if \<bar>n\<bar> < float_int_limit then Inr (of_int n)
      else Inl (Exn ''OverflowError'' ''int too large to convert to float''))"
| "py_float b (PyFloat r) = Inr r"
| "py_float b (PyStr s) =
     (case float_of_str b s of
        Some r \<Rightarrow> Inr r
      | None \<Rightarrow> Inl (Exn ''ValueError'' (''could not convert string to float: '' @ repr_str b s)))"

section \<open>The loaded artifacts and the predictor object\<close>

text \<open>
  The model and the scaler are unpickled objects of another library. The model offers
  \<^verbatim>\<open>predict(X)[0]\<close> on one row and, when it is an ensemble, the list \<^verbatim>\<open>estimators_\<close>
  of sub-estimators with the same operation; the scaler offers \<^verbatim>\<open>transform\<close> on one
  row. Each may raise.
\<close>

record model_artifact =
  predict :: "pyval list \<Rightarrow> exn + real"
  estimators :: "(pyval list \<Rightarrow> exn + real) list option"

record scaler_artifact =
  transform :: "pyval list \<Rightarrow> exn + real list"

text \<open>
  The fields of \<^verbatim>\<open>HousePricePredictor\<close> that prediction reads; \<open>None\<close> is Python's None.
  A loaded model object counts as true in \<^verbatim>\<open>if not self.model\<close>.
\<close>

record predictor =
  model :: "model_artifact option"
  scaler :: "scaler_artifact option"
  model_features :: "string list option"
  scaler_features :: "string list option"

section \<open>Encoding of the caller's attributes\<close>

text \<open>
  The \<^verbatim>\<open>if\<close>/\<^verbatim>\<open>elif\<close> chain of \<^verbatim>\<open>predict_price\<close>: each categorical attribute has its table
  from code to ordinal and the default of \<^verbatim>\<open>mapping.get(value, default)\<close>; every other
  attribute falls to the last branch.
\<close>

definition categorical :: "string \<Rightarrow> ((string \<times> int) list \<times> int) option" where
  "categorical feature =
    (if feature = ''MSZoning'' then
       Some ([(''C'', 0), (''RM'', 1), (''RH'', 2), (''RL'', 3), (''FV'', 4)], 3)
     else if feature = ''Neighborhood'' then
       Some ([(''MeadowV'', 0), (''IDOTRR'', 1), (''BrDale'', 2), (''OldTown'', 3), (''Edwards'', 4),
              (''BrkSide'', 5), (''Sawyer'', 6), (''Blueste'', 7), (''SWISU'', 8), (''NAmes'', 9),
              (''NPkVill'', 10), (''Mitchel'', 11), (''SawyerW'', 12), (''Gilbert'', 13), (''NWAmes'', 14),
              (''Blmngtn'', 15), (''CollgCr'', 16), (''ClearCr'', 17), (''Crawfor'', 18), (''Veenker'', 19),
              (''Somerst'', 20), (''Timber'', 21), (''StoneBr'', 22), (''NoRidge'', 23), (''NridgHt'', 24)], 12)
     else if feature = ''RoofStyle'' then
       Some ([(''Gable'', 1), (''Hip'', 2), (''Gambrel'', 3), (''Mansard'', 4), (''Flat'', 5), (''Shed'', 6)], 1)
     else if feature = ''BsmtQual'' then
       Some ([(''NA'', 0), (''Fa'', 1), (''TA'', 2), (''Gd'', 3), (''Ex'', 4)], 3)
     else if feature = ''BsmtExposure'' then
       Some ([(''NA'', 0), (''No'', 1), (''Mn'', 2), (''Av'', 3), (''Gd'', 4)], 2)
     else if feature = ''HeatingQC'' then
       Some ([(''Po'', 1), (''Fa'', 2), (''TA'', 3), (''Gd'', 4), (''Ex'', 5)], 4)
     else if feature = ''CentralAir'' then
       Some ([(''N'', 0), (''Y'', 1)], 1)
     else if feature = ''KitchenQual'' then
       Some ([(''Fa'', 1), (''TA'', 2), (''Gd'', 3), (''Ex'', 4)], 3)
     else if feature = ''FireplaceQu'' then
       Some ([(''NA'', 0), (''Po'', 1), (''Fa'', 2), (''TA'', 3), (''Gd'', 4), (''Ex'', 5)], 3)
     else if feature = ''GarageType'' then
       Some ([(''NA'', 0), (''Detchd'', 1), (''CarPort'', 2), (''BuiltIn'', 3), (''Attchd'', 4)], 1)
     else if feature = ''GarageFinish'' then
       Some ([(''NA'', 0), (''Unf'', 1), (''RFn'', 2), (''Fin'', 3)], 2)
     else if feature = ''PavedDrive'' then
       Some ([(''N'', 0), (''P'', 1), (''Y'', 2)], 2)
     else if feature = ''SaleCondition'' then
       Some ([(''AdjLand'', 0), (''Abnorml'', 1), (''Alloca'', 2), (''Family'', 3), (''Normal'', 4),
              (''Partial'', 5)], 4)
     else None)"

text \<open>
  \<^verbatim>\<open>mapping.get(value, default)\<close> on a table keyed by strings: a number is never equal
  to a string key, so it yields the default.
\<close>

fun mapping_get :: "(string \<times> int) list \<Rightarrow> pyval \<Rightarrow> int \<Rightarrow> int" where
  "mapping_get tbl (PyStr s) d = (case map_of tbl s of Some n \<Rightarrow> n | None \<Rightarrow> d)"
| "mapping_get tbl (PyInt n) d = d"
| "mapping_get tbl (PyFloat r) d = d"

definition encode_value :: "builtins \<Rightarrow> string \<Rightarrow> pyval \<Rightarrow> exn + pyval" where
  "encode_value b feature v =
    (case categorical feature of
       Some (tbl, d) \<Rightarrow> Inr (PyInt (mapping_get tbl v d))
     | None \<Rightarrow> (case py_float b v of Inl e \<Rightarrow> Inl e | Inr r \<Rightarrow> Inr (PyFloat r)))"

text \<open>
  The loop \<^verbatim>\<open>for feature, value in features.items()\<close>: an entry is encoded only
  \<^verbatim>\<open>if feature in self.model_features\<close>; the first failing conversion ends the loop with
  its exception.
\<close>

fun encode_loop :: "builtins \<Rightarrow> string list \<Rightarrow> pyval dict \<Rightarrow> pyval dict \<Rightarrow> exn + pyval dict" where
  "encode_loop b mf [] encoded = Inr encoded"
| "encode_loop b mf ((feature, v) # rest) encoded =
     (if feature \<in> set mf then
        (case encode_value b feature v of
           Inl e \<Rightarrow> Inl e
         | Inr x \<Rightarrow> encode_loop b mf rest (AList.update feature x encoded))
      else encode_loop b mf rest encoded)"

definition encode_features :: "builtins \<Rightarrow> string list \<Rightarrow> pyval dict \<Rightarrow> exn + pyval dict" where
  "encode_features b mf features = encode_loop b mf features []"

section \<open>Assembling the full feature vector\<close>

text \<open>The keys written after \<^verbatim>\<open>**user_inputs\<close> in the dictionary display, in order.\<close>

definition hardcoded_defaults :: "pyval dict" where
  "hardcoded_defaults =
    [(''LotFrontage'', PyFloat 70), (''LotArea'', PyFloat 8000), (''Street'', PyInt 1),
     (''Alley'', PyInt 0), (''LotShape'', PyInt 3), (''LandContour'', PyInt 0),
     (''Utilities'', PyInt 0), (''LotConfig'', PyInt 4), (''LandSlope'', PyInt 0),
     (''Condition1'', PyInt 2), (''Condition2'', PyInt 2), (''BldgType'', PyInt 0),
     (''HouseStyle'', PyInt 5), (''OverallCond'', PyInt 5), (''YearBuilt'', PyInt 30),
     (''RoofMatl'', PyInt 0), (''Exterior1st'', PyInt 12), (''Exterior2nd'', PyInt 12),
     (''MasVnrType'', PyInt 1), (''MasVnrArea'', PyFloat 100), (''ExterQual'', PyInt 3),
     (''ExterCond'', PyInt 3), (''Foundation'', PyInt 2), (''BsmtCond'', PyInt 3),
     (''BsmtFinType1'', PyInt 5), (''BsmtFinSF1'', PyFloat 400), (''BsmtFinType2'', PyInt 5),
     (''BsmtFinSF2'', PyFloat 0), (''BsmtUnfSF'', PyFloat 400), (''TotalBsmtSF'', PyFloat 800),
     (''Heating'', PyInt 1), (''Electrical'', PyInt 4), (''2ndFlrSF'', PyFloat 0),
     (''LowQualFinSF'', PyFloat 0), (''BsmtHalfBath'', PyInt 0), (''FullBath'', PyInt 2),
     (''HalfBath'', PyInt 0), (''BedroomAbvGr'', PyInt 3), (''KitchenAbvGr'', PyInt 1),
     (''TotRmsAbvGrd'', PyInt 7), (''Functional'', PyInt 6), (''GarageYrBlt'', PyInt 30),
     (''GarageArea'', PyFloat 500), (''GarageQual'', PyInt 3), (''GarageCond'', PyInt 3),
     (''WoodDeckSF'', PyFloat 0), (''OpenPorchSF'', PyFloat 0), (''EnclosedPorch'', PyFloat 0),
     (''3SsnPorch'', PyFloat 0), (''ScreenPorch'', PyFloat 0), (''PoolArea'', PyFloat 0),
     (''PoolQC'', PyInt 0), (''Fence'', PyInt 0), (''MiscFeature'', PyInt 0),
     (''MiscVal'', PyFloat 0), (''MoSold'', PyInt 6), (''YrSold'', PyInt 2010),
     (''SaleType'', PyInt 8), (''LotFrontagenan'', PyInt 0), (''MasVnrAreanan'', PyInt 0),
     (''GarageYrBltnan'', PyInt 0)]"

text \<open>
  \<^verbatim>\<open>{**user_inputs, 'LotFrontage': 70.0, ...}\<close>: the display starts from the entries of
  \<^verbatim>\<open>user_inputs\<close> and then stores each written key in turn.
\<close>

definition default_values :: "pyval dict \<Rightarrow> pyval dict" where
  "default_values user_inputs =
     fold (\<lambda>(k, v) d. AList.update k v d) hardcoded_defaults user_inputs"

text \<open>
  \<^verbatim>\<open>for feature in self.scaler_features: full_vector.append(default_values.get(feature, 0.0))\<close>;
  iterating over None raises TypeError.
\<close>

definition create_full_feature_vector :: "predictor \<Rightarrow> pyval dict \<Rightarrow> exn + pyval list" where
  "create_full_feature_vector p user_inputs =
    (case scaler_features p of
       None \<Rightarrow> Inl (Exn ''TypeError'' '''NoneType' object is not iterable'')
     | Some sfs \<Rightarrow> Inr (map (\<lambda>feature. dict_get (default_values user_inputs) feature (PyFloat 0)) sfs))"

section \<open>Prediction\<close>

text \<open>\<^verbatim>\<open>str(n)\<close> for a natural number, used in the text of an IndexError.\<close>

fun str_nat :: "nat \<Rightarrow> string" where
  "str_nat n =
     (if n < 10 then [char_of (48 + n)] else str_nat (n div 10) @ [char_of (48 + n mod 10)])"

text \<open>A list comprehension over calls that may raise: the first exception ends it.\<close>

fun collect :: "('a \<Rightarrow> exn + 'b) \<Rightarrow> 'a list \<Rightarrow> exn + 'b list" where
  "collect f [] = Inr []"
| "collect f (x # xs) =
     (case f x of
        Inl e \<Rightarrow> Inl e
      | Inr y \<Rightarrow> (case collect f xs of Inl e \<Rightarrow> Inl e | Inr ys \<Rightarrow> Inr (y # ys)))"

text \<open>\<^verbatim>\<open>self.scaler_features.index(f)\<close>: the first position of \<open>f\<close>, or ValueError.\<close>

definition list_index :: "builtins \<Rightarrow> string list \<Rightarrow> string \<Rightarrow> exn + nat" where
  "list_index b xs f =
    (if f \<in> set xs then Inr (length (takeWhile (\<lambda>y. y \<noteq> f) xs))
     else Inl (Exn ''ValueError'' (repr_str b f @ '' is not in list'')))"

text \<open>\<^verbatim>\<open>scaled_full[:, model_indices]\<close> on the one row: an index past the row raises.\<close>

definition take_columns :: "real list \<Rightarrow> nat list \<Rightarrow> exn + pyval list" where
  "take_columns row idxs =
    (case filter (\<lambda>i. \<not> i < length row) idxs of
       [] \<Rightarrow> Inr (map (\<lambda>i. PyFloat (row ! i)) idxs)
     | i # _ \<Rightarrow> Inl (Exn ''IndexError''
         (''index '' @ str_nat i @ '' is out of bounds for axis 1 with size '' @ str_nat (length row))))"

text \<open>
  The first statement of the \<^verbatim>\<open>try\<close> block. With \<^verbatim>\<open>self.model_features\<close> None the
  test \<^verbatim>\<open>feature in self.model_features\<close> raises at the first entry.
\<close>

definition encode_step :: "builtins \<Rightarrow> predictor \<Rightarrow> pyval dict \<Rightarrow> exn + pyval dict" where
  "encode_step b p features =
    (case model_features p of
       None \<Rightarrow> (if features = [] then Inr []
                else Inl (Exn ''TypeError'' ''argument of type 'NoneType' is not iterable''))
     | Some mf \<Rightarrow> encode_features b mf features)"

text \<open>Method 2 of the source: \<^verbatim>\<open>[encoded_features.get(f, 0) for f in self.model_features]\<close>.\<close>

definition raw_model_input :: "predictor \<Rightarrow> pyval dict \<Rightarrow> exn + pyval list" where
  "raw_model_input p encoded =
    (case model_features p of
       None \<Rightarrow> Inl (Exn ''TypeError'' '''NoneType' object is not iterable'')
     | Some mf \<Rightarrow> Inr (map (\<lambda>f. dict_get encoded f (PyInt 0)) mf))"

text \<open>Method 1 of the source: full vector, \<^verbatim>\<open>transform\<close>, then the model's columns by name.\<close>

definition scaled_model_input :: "builtins \<Rightarrow> predictor \<Rightarrow> string list \<Rightarrow> pyval dict \<Rightarrow> exn + pyval list" where
  "scaled_model_input b p sfs encoded =
    (case create_full_feature_vector p encoded of
       Inl e \<Rightarrow> Inl e
     | Inr full_vector \<Rightarrow>
        (case scaler p of
           None \<Rightarrow> Inl (Exn ''AttributeError''
                     ('''NoneType' object has no attribute 'transform'' @ [CHR 0x27]))
         | Some sc \<Rightarrow>
            (case transform sc full_vector of
               Inl e \<Rightarrow> Inl e
             | Inr scaled_full \<Rightarrow>
                (case model_features p of
                   None \<Rightarrow> Inl (Exn ''TypeError'' '''NoneType' object is not iterable'')
                 | Some mf \<Rightarrow>
                    (case collect (list_index b sfs) mf of
                       Inl e \<Rightarrow> Inl e
                     | Inr model_indices \<Rightarrow> take_columns scaled_full model_indices)))))"

text \<open>\<^verbatim>\<open>if self.scaler_features:\<close> is false for None and for the empty list.\<close>

definition model_input :: "builtins \<Rightarrow> predictor \<Rightarrow> pyval dict \<Rightarrow> exn + pyval list" where
  "model_input b p encoded =
    (case scaler_features p of
       None \<Rightarrow> raw_model_input p encoded
     | Some sfs \<Rightarrow>
        (if sfs = [] then raw_model_input p encoded
         else scaled_model_input b p sfs encoded))"

subsection \<open>The prediction info\<close>

text \<open>The values stored in the info dictionary; \<open>INaN\<close> is the float nan.\<close>

datatype info_value =
  IInt int | IFloat real | INaN | IStr string | IDict "(string \<times> info_value) list"

text \<open>
  \<^verbatim>\<open>np.std\<close> with its default \<^verbatim>\<open>ddof=0\<close>: the square root of the mean squared
  deviation from the mean; of no values it is nan (\<open>None\<close> here).
\<close>

definition np_mean :: "real list \<Rightarrow> real" where
  "np_mean xs = sum_list xs / real (length xs)"

definition np_std :: "real list \<Rightarrow> real option" where
  "np_std xs =
    (if xs = [] then None
     else Some (sqrt (sum_list (map (\<lambda>x. (x - np_mean xs)\<^sup>2) xs) / real (length xs))))"

text \<open>The two entries added under \<^verbatim>\<open>hasattr(self.model, 'estimators_')\<close>.\<close>

definition interval_entries :: "real \<Rightarrow> real option \<Rightarrow> info_value dict" where
  "interval_entries prediction std_dev =
    (case std_dev of
       Some s \<Rightarrow>
         [(''std_deviation'', IFloat s),
          (''confidence_interval'',
             IDict [(''lower'', if prediction - 1.96 * s > 0 then IFloat (prediction - 1.96 * s) else IInt 0),
                    (''upper'', IFloat (prediction + 1.96 * s))])]
     | None \<Rightarrow>
         [(''std_deviation'', INaN),
          (''confidence_interval'', IDict [(''lower'', IInt 0), (''upper'', INaN)])])"

definition category_entries :: "real \<Rightarrow> info_value dict" where
  "category_entries prediction =
    (if prediction < 150000 then
       [(''category'', IStr ''Budget (Under $150K)''), (''category_color'', IStr ''#e67e22'')]
     else if prediction > 400000 then
       [(''category'', IStr ''Premium ($400K+)''), (''category_color'', IStr ''#9b59b6'')]
     else
       [(''category'', IStr ''Mid-range ($150K-$400K)''), (''category_color'', IStr ''#27ae60'')])"

text \<open>
  \<^verbatim>\<open>_get_prediction_info\<close>. The keys it stores are new ones, so each store appends.
  An exception inside the ensemble block is swallowed by \<^verbatim>\<open>except: pass\<close>.
\<close>

definition ensemble_entries :: "predictor \<Rightarrow> pyval list \<Rightarrow> real \<Rightarrow> info_value dict" where
  "ensemble_entries p feature_array prediction =
    (case model p of
       None \<Rightarrow> []
     | Some m \<Rightarrow>
        (case estimators m of
           None \<Rightarrow> []
         | Some trees \<Rightarrow>
            (case collect (\<lambda>tree. tree feature_array) trees of
               Inl e \<Rightarrow> []
             | Inr predictions \<Rightarrow> interval_entries prediction (np_std (map exp predictions)))))"

definition get_prediction_info ::
  "builtins \<Rightarrow> predictor \<Rightarrow> pyval list \<Rightarrow> real \<Rightarrow> pyval dict \<Rightarrow> exn + info_value dict" where
  "get_prediction_info b p feature_array prediction user_inputs =
    (case model_features p of
       None \<Rightarrow> Inl (Exn ''TypeError'' ''object of type 'NoneType' has no len()'')
     | Some mf \<Rightarrow>
        Inr ([(''prediction'', IFloat prediction),
              (''formatted_prediction'', IStr (CHR ''$'' # fmt_money b prediction)),
              (''confidence'', IStr ''Medium''),
              (''input_features_count'', IInt (int (length user_inputs))),
              (''missing_features_count'', IInt (int (length mf) - int (length user_inputs)))]
             @ category_entries prediction
             @ ensemble_entries p feature_array prediction))"

subsection \<open>\<^verbatim>\<open>predict_price\<close>\<close>

text \<open>The body of the \<^verbatim>\<open>try\<close> block.\<close>

definition predict_try ::
  "builtins \<Rightarrow> predictor \<Rightarrow> model_artifact \<Rightarrow> pyval dict \<Rightarrow> exn + (real \<times> info_value dict)" where
  "predict_try b p m features =
    (case encode_step b p features of
       Inl e \<Rightarrow> Inl e
     | Inr encoded_features \<Rightarrow>
        (case model_input b p encoded_features of
           Inl e \<Rightarrow> Inl e
         | Inr input \<Rightarrow>
            (case predict m input of
               Inl e \<Rightarrow> Inl e
             | Inr prediction_log \<Rightarrow>
                (case get_prediction_info b p input (exp prediction_log) encoded_features of
                   Inl e \<Rightarrow> Inl e
                 | Inr prediction_info \<Rightarrow> Inr (exp prediction_log, prediction_info)))))"

text \<open>
  \<^verbatim>\<open>if not self.model: raise ValueError("Model not loaded")\<close> stands before the
  \<^verbatim>\<open>try\<close>, so that exception reaches the caller (\<open>Inl\<close>); every exception of the block
  is turned into \<^verbatim>\<open>(0.0, {'error': str(e)})\<close>.
\<close>

definition predict_price ::
  "builtins \<Rightarrow> predictor \<Rightarrow> pyval dict \<Rightarrow> exn + (real \<times> info_value dict)" where
  "predict_price b p features =
    (case model p of
       None \<Rightarrow> Inl (Exn ''ValueError'' ''Model not loaded'')
     | Some m \<Rightarrow>
        Inr (case predict_try b p m features of
               Inl e \<Rightarrow> (0, [(''error'', IStr (str_exn e))])
             | Inr r \<Rightarrow> r))"

section \<open>The confidence label of the display\<close>

text \<open>\<^verbatim>\<open>feature_count >= n\<close> for what the info may hold; a string or a dict raises.\<close>

fun py_ge :: "info_value \<Rightarrow> int \<Rightarrow> exn + bool" where
  "py_ge (IInt i) n = Inr (i \<ge> n)"
| "py_ge (IFloat r) n = Inr (r \<ge> of_int n)"
| "py_ge INaN n = Inr False"
| "py_ge (IStr s) n =
     Inl (Exn ''TypeError'' ('''>=' not supported between instances of 'str' and 'int'' @ [CHR 0x27]))"
| "py_ge (IDict d) n =
     Inl (Exn ''TypeError'' ('''>=' not supported between instances of 'dict' and 'int'' @ [CHR 0x27]))"

text \<open>
  The label computed by \<^verbatim>\<open>display_confidence_interval\<close> of
  \<^verbatim>\<open>src/components/prediction_display.py\<close> (its variable \<^verbatim>\<open>confidence_text\<close>).
\<close>

definition confidence_text :: "info_value dict \<Rightarrow> exn + string" where
  "confidence_text prediction_info =
    (let feature_count = dict_get prediction_info ''input_features_count'' (IInt 8) in
     case py_ge feature_count 15 of
       Inl e \<Rightarrow> Inl e
     | Inr True \<Rightarrow> Inr ''High''
     | Inr False \<Rightarrow>
        (case py_ge feature_count 10 of
           Inl e \<Rightarrow> Inl e
         | Inr True \<Rightarrow> Inr ''Medium''
         | Inr False \<Rightarrow> Inr ''Medium''))"

section \<open>Auxiliary notions and concrete instances\<close>

text \<open>A value is numeric when it is an \<^verbatim>\<open>int\<close> or a \<^verbatim>\<open>float\<close>.\<close>

fun is_number :: "pyval \<Rightarrow> bool" where
  "is_number (PyInt n) = True"
| "is_number (PyFloat r) = True"
| "is_number (PyStr s) = False"

text \<open>
  The standard deviation with divisor \<open>n - 1\<close>, which is what "sample standard
  deviation" names; it is compared below with what \<open>np_std\<close> computes.
\<close>

definition sample_std :: "real list \<Rightarrow> real" where
  "sample_std xs = sqrt (sum_list (map (\<lambda>x. (x - np_mean xs)\<^sup>2) xs) / (real (length xs) - 1))"

text \<open>The list that \<^verbatim>\<open>_load_model\<close> falls back to.\<close>

definition fallback_model_features :: "string list" where
  "fallback_model_features =
    [''MSSubClass'', ''MSZoning'', ''Neighborhood'', ''OverallQual'', ''YearRemodAdd'',
     ''RoofStyle'', ''BsmtQual'', ''BsmtExposure'', ''HeatingQC'', ''CentralAir'',
     ''1stFlrSF'', ''GrLivArea'', ''BsmtFullBath'', ''KitchenQual'', ''Fireplaces'',
     ''FireplaceQu'', ''GarageType'', ''GarageFinish'', ''GarageCars'', ''PavedDrive'',
     ''SaleCondition'']"

text \<open>
  An instance of the interpreter's functions for the examples: it agrees with Python on
  every string that is not a float literal (\<^verbatim>\<open>float\<close> raises), on \<^verbatim>\<open>repr\<close> of a string of
  plain letters, and on the format of the price 1.
\<close>

definition example_builtins :: builtins where
  "example_builtins =
     \<lparr>float_of_str = (\<lambda>s. None),
      repr_str = (\<lambda>s. [CHR 0x27] @ s @ [CHR 0x27]),
      fmt_money = (\<lambda>x. ''1.00'')\<rparr>"

text \<open>A predictor whose artifacts were not found, and one that only has a full schema.\<close>

definition unloaded_predictor :: predictor where
  "unloaded_predictor =
     \<lparr>model = None, scaler = None, model_features = None, scaler_features = None\<rparr>"

definition schema_predictor :: predictor where
  "schema_predictor =
     \<lparr>model = None, scaler = None, model_features = None,
      scaler_features = Some [''LotArea'', ''GrLivArea'', ''PoolQC'']\<rparr>"

text \<open>
  A loaded model that predicts the logarithm 0 (the price 1) for every row, without
  sub-estimators; with the fallback feature list and no scaler it is a predictor in
  degraded mode.
\<close>

definition unit_model :: model_artifact where
  "unit_model = \<lparr>predict = (\<lambda>row. Inr 0), estimators = None\<rparr>"

definition raw_predictor :: predictor where
  "raw_predictor =
     \<lparr>model = Some unit_model, scaler = None,
      model_features = Some fallback_model_features, scaler_features = None\<rparr>"

text \<open>Fifteen attributes of the reduced schema, with the values of \<^verbatim>\<open>get_sample_input\<close>.\<close>

definition fifteen_features :: "pyval dict" where
  "fifteen_features =
    [(''MSSubClass'', PyInt 60), (''MSZoning'', PyStr ''RL''), (''Neighborhood'', PyStr ''CollgCr''),
     (''OverallQual'', PyInt 7), (''YearRemodAdd'', PyInt 2003), (''RoofStyle'', PyStr ''Gable''),
     (''BsmtQual'', PyStr ''Gd''), (''BsmtExposure'', PyStr ''No''), (''HeatingQC'', PyStr ''Ex''),
     (''CentralAir'', PyStr ''Y''), (''1stFlrSF'', PyInt 856), (''GrLivArea'', PyInt 1710),
     (''BsmtFullBath'', PyInt 1), (''KitchenQual'', PyStr ''Gd''), (''Fireplaces'', PyInt 0)]"

text \<open>
  Ensembles: one tree that predicts 0, and two trees that predict \<open>- ln 3\<close> and \<open>ln 3\<close>
  (the prices 1/3 and 3) while the forest predicts their mean 0.
\<close>

definition one_tree_model :: model_artifact where
  "one_tree_model = \<lparr>predict = (\<lambda>row. Inr 0), estimators = Some [\<lambda>row. Inr 0]\<rparr>"

definition one_tree_predictor :: predictor where
  "one_tree_predictor =
     \<lparr>model = Some one_tree_model, scaler = None,
      model_features = Some [''GrLivArea''], scaler_features = None\<rparr>"

definition two_tree_model :: model_artifact where
  "two_tree_model =
     \<lparr>predict = (\<lambda>row. Inr 0),
      estimators = Some [\<lambda>row. Inr (- ln 3), \<lambda>row. Inr (ln 3)]\<rparr>"

definition two_tree_predictor :: predictor where
  "two_tree_predictor =
     \<lparr>model = Some two_tree_model, scaler = None,
      model_features = Some [''GrLivArea''], scaler_features = None\<rparr>"

text \<open>A scaler that sends every row to zeros, and a predictor that uses it.\<close>

definition zero_scaler :: scaler_artifact where
  "zero_scaler = \<lparr>transform = (\<lambda>row. Inr (map (\<lambda>v. 0) row))\<rparr>"

definition scaled_predictor :: predictor where
  "scaled_predictor =
     \<lparr>model = Some unit_model, scaler = Some zero_scaler,
      model_features = Some [''GrLivArea''],
      scaler_features = Some [''LotArea'', ''GrLivArea'']\<rparr>"

text \<open>
  A predictor whose model artifact names \<^verbatim>\<open>LotArea\<close> among its features
  (\<^verbatim>\<open>self.model.feature_names_in_\<close>), an attribute that also has a hardcoded default.
\<close>

definition overlap_predictor :: predictor where
  "overlap_predictor =
     \<lparr>model = Some unit_model, scaler = Some zero_scaler,
      model_features = Some [''LotArea'', ''GrLivArea''],
      scaler_features = Some [''LotArea'', ''GrLivArea'', ''PoolQC'']\<rparr>"

section \<open>The full vector\<close>

text \<open>Storing the written keys over a dictionary: each written key ends with its written value.\<close>

lemma map_of_fold_update:
  "distinct (map fst hs) \<Longrightarrow>
   map_of (fold (\<lambda>(k, v) d. AList.update k v d) hs base) k =
     (case map_of hs k of Some v \<Rightarrow> Some v | None \<Rightarrow> map_of base k)"
proof (induction hs arbitrary: base)
  case Nil
  show ?case by simp
next
  case (Cons h hs)
  obtain k' v' where h: "h = (k', v')" by (cases h)
  from Cons.prems have fresh: "map_of hs k' = None" and d: "distinct (map fst hs)"
    by (simp_all add: h map_of_eq_None_iff)
  show ?case
    using fresh by (simp add: h Cons.IH [OF d] update_conv' split: option.splits)
qed

lemma hardcoded_distinct: "distinct (map fst hardcoded_defaults)"
  unfolding hardcoded_defaults_def by simp

lemma hardcoded_numeric: "\<forall>v \<in> snd ` set hardcoded_defaults. is_number v"
  unfolding hardcoded_defaults_def by simp

lemma map_of_default_values:
  "map_of (default_values user_inputs) k =
     (case map_of hardcoded_defaults k of Some v \<Rightarrow> Some v | None \<Rightarrow> map_of user_inputs k)"
  unfolding default_values_def
  by (rule map_of_fold_update [OF hardcoded_distinct])

lemma slot_value:
  "dict_get (default_values user_inputs) k (PyFloat 0) =
     (case map_of hardcoded_defaults k of
        Some d \<Rightarrow> d
      | None \<Rightarrow> dict_get user_inputs k (PyFloat 0))"
  by (simp add: dict_get_def map_of_default_values split: option.splits)

lemma slot_numeric:
  assumes "\<forall>v \<in> snd ` set user_inputs. is_number v"
  shows "is_number (dict_get (default_values user_inputs) k (PyFloat 0))"
proof (cases "map_of hardcoded_defaults k")
  case None
  note no_default = this
  show ?thesis
  proof (cases "map_of user_inputs k")
    case None
    with no_default show ?thesis
      unfolding slot_value by (simp add: dict_get_def)
  next
    case (Some v)
    then have "(k, v) \<in> set user_inputs" by (rule map_of_SomeD)
    then have "is_number v" using assms by force
    with Some no_default show ?thesis
      unfolding slot_value by (simp add: dict_get_def)
  qed
next
  case (Some d)
  then have "(k, d) \<in> set hardcoded_defaults" by (rule map_of_SomeD)
  then have "is_number d" using hardcoded_numeric by force
  with Some show ?thesis by (simp add: slot_value)
qed

text \<open>The value in each slot, as the code computes it.\<close>

lemma full_vector_slot:
  assumes "scaler_features p = Some sfs" and "i < length sfs"
  shows "\<exists>vec. create_full_feature_vector p encoded = Inr vec \<and>
           vec ! i = (case map_of hardcoded_defaults (sfs ! i) of
                        Some d \<Rightarrow> d
                      | None \<Rightarrow> dict_get encoded (sfs ! i) (PyFloat 0))"
  using assms by (simp add: create_full_feature_vector_def slot_value)

lemma small_int_float: "\<bar>n\<bar> < 2 ^ 64 \<Longrightarrow> py_float b (PyInt n) = Inr (of_int n)"
  by (simp add: float_int_limit_def)

text \<open>
  C1 asks that an attribute present both in the caller's map and in the hardcoded
  defaults keeps the caller's value, which is what the code's own names say: the
  dictionary is \<^verbatim>\<open>default_values\<close>, its first part is commented "User provided features"
  and the written keys "Additional features with reasonable defaults". The written keys
  are stored after \<^verbatim>\<open>**user_inputs\<close>, though, so at the input below, where the model's
  feature list holds \<^verbatim>\<open>LotArea\<close> and the caller gives 9000 for it, the encoded map holds
  9000 and the vector handed to the scaler holds the default 8000 in that slot.
\<close>

theorem caller_value_overridden:
  "encode_step example_builtins overlap_predictor
     [(''LotArea'', PyInt 9000), (''GrLivArea'', PyInt 1710)]
     = Inr [(''LotArea'', PyFloat 9000), (''GrLivArea'', PyFloat 1710)] \<and>
   create_full_feature_vector overlap_predictor
     [(''LotArea'', PyFloat 9000), (''GrLivArea'', PyFloat 1710)]
     = Inr [PyFloat 8000, PyFloat 1710, PyInt 0]"
proof -
  have "encode_step example_builtins overlap_predictor
     [(''LotArea'', PyInt 9000), (''GrLivArea'', PyInt 1710)]
     = Inr [(''LotArea'', PyFloat 9000), (''GrLivArea'', PyFloat 1710)]"
    by (simp add: encode_step_def encode_features_def overlap_predictor_def encode_value_def
        categorical_def small_int_float del: py_float.simps)
  moreover have "create_full_feature_vector overlap_predictor
     [(''LotArea'', PyFloat 9000), (''GrLivArea'', PyFloat 1710)]
     = Inr [PyFloat 8000, PyFloat 1710, PyInt 0]"
    unfolding create_full_feature_vector_def slot_value overlap_predictor_def
    by (simp add: hardcoded_defaults_def dict_get_def)
  ultimately show ?thesis by simp
qed

text \<open>
  C7: for every map of numbers, the empty one too, the full vector has one value for
  each name of the scaler's list, in that order, and every value is a number.
\<close>

theorem full_vector_complete:
  assumes "scaler_features p = Some sfs"
    and "\<forall>v \<in> snd ` set encoded. is_number v"
  shows "\<exists>vec. create_full_feature_vector p encoded = Inr vec \<and>
           length vec = length sfs \<and> (\<forall>i < length sfs. is_number (vec ! i))"
  using assms by (simp add: create_full_feature_vector_def slot_numeric)

theorem full_vector_complete_witness:
  "\<exists>vec. create_full_feature_vector schema_predictor [(''GrLivArea'', PyFloat 1710)] = Inr vec \<and>
         length vec = 3 \<and> is_number (vec ! 0) \<and> is_number (vec ! 1) \<and> is_number (vec ! 2)"
proof -
  have s: "scaler_features schema_predictor = Some [''LotArea'', ''GrLivArea'', ''PoolQC'']"
    by (simp add: schema_predictor_def)
  have n: "\<forall>v \<in> snd ` set [(''GrLivArea'', PyFloat 1710)]. is_number v" by simp
  from full_vector_complete [OF s n] obtain vec where
    v: "create_full_feature_vector schema_predictor [(''GrLivArea'', PyFloat 1710)] = Inr vec"
      "length vec = length [''LotArea'', ''GrLivArea'', ''PoolQC'']"
      "\<forall>i < length [''LotArea'', ''GrLivArea'', ''PoolQC'']. is_number (vec ! i)"
    by blast
  from v(3) have "is_number (vec ! 0)" "is_number (vec ! 1)" "is_number (vec ! 2)"
    by simp_all
  with v(1,2) show ?thesis by simp
qed

section \<open>The unloaded model\<close>

text \<open>
  C2, as the specification states it: without a model no exception leaves
  \<^verbatim>\<open>predict_price\<close>. The guard raises before the \<^verbatim>\<open>try\<close> block, so ValueError reaches
  the caller.
\<close>

theorem unloaded_model_raises:
  "predict_price example_builtins unloaded_predictor [(''GrLivArea'', PyInt 1710)]
     = Inl (Exn ''ValueError'' ''Model not loaded'')"
  by (simp add: predict_price_def unloaded_predictor_def)

text \<open>
  C2, amended: without a model every call, whatever the input, the scaler and the
  feature lists, ends at once by raising ValueError "Model not loaded" to the caller;
  nothing is encoded and nothing is inferred.
\<close>

theorem model_not_loaded:
  "model p = None \<Longrightarrow>
   predict_price b p features = Inl (Exn ''ValueError'' ''Model not loaded'')"
  by (simp add: predict_price_def)

theorem model_not_loaded_witness:
  "model unloaded_predictor = None \<and>
   predict_price example_builtins unloaded_predictor [] = Inl (Exn ''ValueError'' ''Model not loaded'')"
proof -
  have m: "model unloaded_predictor = None" by (simp add: unloaded_predictor_def)
  show ?thesis using model_not_loaded [OF m, of example_builtins "[]"] m by simp
qed

section \<open>Properties of the encoding loop\<close>

lemma encode_value_numeric: "encode_value b k v = Inr x \<Longrightarrow> is_number x"
  by (auto simp: encode_value_def split: option.splits sum.splits)

lemma encode_value_error: "encode_value b k v = Inl e \<Longrightarrow> str_exn e \<noteq> []"
  by (cases v) (auto simp: encode_value_def split: option.splits sum.splits if_splits)

lemma encode_loop_other:
  "encode_loop b mf fs acc = Inr enc \<Longrightarrow> k \<notin> set mf \<or> k \<notin> fst ` set fs \<Longrightarrow>
   map_of enc k = map_of acc k"
proof (induction fs arbitrary: acc)
  case Nil
  then show ?case by simp
next
  case (Cons f fs)
  obtain k' v' where f: "f = (k', v')" by (cases f)
  show ?case
  proof (cases "k' \<in> set mf")
    case False
    with Cons.prems f have "encode_loop b mf fs acc = Inr enc" by simp
    moreover from Cons.prems(2) have "k \<notin> set mf \<or> k \<notin> fst ` set fs" by auto
    ultimately show ?thesis by (rule Cons.IH)
  next
    case True
    with Cons.prems(1) f obtain x where x: "encode_value b k' v' = Inr x"
      and rest: "encode_loop b mf fs (AList.update k' x acc) = Inr enc"
      by (auto split: sum.splits)
    from Cons.prems(2) have side: "k \<notin> set mf \<or> k \<notin> fst ` set fs" by auto
    from Cons.prems(2) True f have "k \<noteq> k'" by auto
    with Cons.IH [OF rest side] show ?thesis by (simp add: update_conv')
  qed
qed

lemma encode_loop_entry:
  "encode_loop b mf fs acc = Inr enc \<Longrightarrow> distinct (map fst fs) \<Longrightarrow>
   (k, v) \<in> set fs \<Longrightarrow> k \<in> set mf \<Longrightarrow>
   \<exists>x. encode_value b k v = Inr x \<and> map_of enc k = Some x"
proof (induction fs arbitrary: acc)
  case Nil
  then show ?case by simp
next
  case (Cons f fs)
  obtain k' v' where f: "f = (k', v')" by (cases f)
  from Cons.prems(2) f have fresh: "k' \<notin> fst ` set fs" and d: "distinct (map fst fs)"
    by simp_all
  show ?case
  proof (cases "k' \<in> set mf")
    case False
    with Cons.prems f have rest: "encode_loop b mf fs acc = Inr enc" by simp
    from False Cons.prems(3,4) f have "(k, v) \<in> set fs" by auto
    from Cons.IH [OF rest d this Cons.prems(4)] show ?thesis .
  next
    case True
    with Cons.prems(1) f obtain x where x: "encode_value b k' v' = Inr x"
      and rest: "encode_loop b mf fs (AList.update k' x acc) = Inr enc"
      by (auto split: sum.splits)
    show ?thesis
    proof (cases "(k, v) = (k', v')")
      case True
      from fresh have "k' \<notin> set mf \<or> k' \<notin> fst ` set fs" by simp
      from encode_loop_other [OF rest this] have "map_of enc k' = Some x"
        by (simp add: update_conv')
      with True x show ?thesis by simp
    next
      case False
      with Cons.prems(3) f have "(k, v) \<in> set fs" by auto
      from Cons.IH [OF rest d this Cons.prems(4)] show ?thesis .
    qed
  qed
qed

lemma encode_loop_total:
  "\<forall>(k, v) \<in> set fs. k \<in> set mf \<longrightarrow> (\<exists>x. encode_value b k v = Inr x) \<Longrightarrow>
   \<exists>enc. encode_loop b mf fs acc = Inr enc"
proof (induction fs arbitrary: acc)
  case Nil
  show ?case by simp
next
  case (Cons f fs)
  obtain k' v' where f: "f = (k', v')" by (cases f)
  from Cons.prems have tl: "\<forall>(k, v) \<in> set fs. k \<in> set mf \<longrightarrow> (\<exists>x. encode_value b k v = Inr x)"
    by simp
  show ?case
  proof (cases "k' \<in> set mf")
    case False
    with Cons.IH [OF tl, of acc] f show ?thesis by simp
  next
    case True
    with Cons.prems f obtain x where x: "encode_value b k' v' = Inr x" by auto
    with Cons.IH [OF tl, of "AList.update k' x acc"] True f show ?thesis by simp
  qed
qed

lemma encode_loop_fails:
  "(k, v) \<in> set fs \<Longrightarrow> k \<in> set mf \<Longrightarrow> encode_value b k v = Inl e0 \<Longrightarrow>
   \<exists>e. encode_loop b mf fs acc = Inl e \<and> str_exn e \<noteq> []"
proof (induction fs arbitrary: acc)
  case Nil
  then show ?case by simp
next
  case (Cons f fs)
  obtain k' v' where f: "f = (k', v')" by (cases f)
  show ?case
  proof (cases "k' \<in> set mf")
    case False
    with Cons.prems f have "(k, v) \<in> set fs" by auto
    from Cons.IH [OF this Cons.prems(2,3), of acc] False f show ?thesis by simp
  next
    case True
    show ?thesis
    proof (cases "encode_value b k' v'")
      case (Inl e)
      from encode_value_error [OF Inl] True f Inl show ?thesis by auto
    next
      case (Inr x)
      with Cons.prems f have "(k, v) \<in> set fs" by auto
      from Cons.IH [OF this Cons.prems(2,3), of "AList.update k' x acc"] True f Inr
      show ?thesis by simp
    qed
  qed
qed

lemma update_entries:
  "(k', v') \<in> set (AList.update k v al) \<Longrightarrow> (k', v') = (k, v) \<or> (k', v') \<in> set al"
  by (induction al) (auto split: if_splits)

lemma encode_loop_numeric:
  "encode_loop b mf fs acc = Inr enc \<Longrightarrow> \<forall>v \<in> snd ` set acc. is_number v \<Longrightarrow>
   \<forall>v \<in> snd ` set enc. is_number v"
proof (induction fs arbitrary: acc)
  case Nil
  then show ?case by simp
next
  case (Cons f fs)
  obtain k' v' where f: "f = (k', v')" by (cases f)
  show ?case
  proof (cases "k' \<in> set mf")
    case False
    with Cons.prems f have "encode_loop b mf fs acc = Inr enc" by simp
    from Cons.IH [OF this Cons.prems(2)] show ?thesis .
  next
    case True
    with Cons.prems(1) f obtain x where x: "encode_value b k' v' = Inr x"
      and rest: "encode_loop b mf fs (AList.update k' x acc) = Inr enc"
      by (auto split: sum.splits)
    have "\<forall>v \<in> snd ` set (AList.update k' x acc). is_number v"
      using Cons.prems(2) encode_value_numeric [OF x] by (auto dest!: update_entries)
    from Cons.IH [OF rest this] show ?thesis .
  qed
qed

lemma length_update_fresh:
  "k \<notin> fst ` set al \<Longrightarrow> length (AList.update k v al) = Suc (length al)"
  by (induction al) auto

lemma encode_loop_length:
  "encode_loop b mf fs acc = Inr enc \<Longrightarrow> distinct (map fst fs) \<Longrightarrow>
   fst ` set fs \<inter> fst ` set acc = {} \<Longrightarrow>
   length enc = length acc + length (filter (\<lambda>(k, v). k \<in> set mf) fs)"
proof (induction fs arbitrary: acc)
  case Nil
  then show ?case by simp
next
  case (Cons f fs)
  obtain k' v' where f: "f = (k', v')" by (cases f)
  from Cons.prems(2) f have fresh: "k' \<notin> fst ` set fs" and d: "distinct (map fst fs)"
    by simp_all
  from Cons.prems(3) f have new: "k' \<notin> fst ` set acc"
    and disj: "fst ` set fs \<inter> fst ` set acc = {}" by auto
  show ?case
  proof (cases "k' \<in> set mf")
    case False
    with Cons.prems f have "encode_loop b mf fs acc = Inr enc" by simp
    from Cons.IH [OF this d disj] False f show ?thesis by simp
  next
    case True
    with Cons.prems(1) f obtain x where x: "encode_value b k' v' = Inr x"
      and rest: "encode_loop b mf fs (AList.update k' x acc) = Inr enc"
      by (auto split: sum.splits)
    have "fst ` set fs \<inter> fst ` set (AList.update k' x acc) = {}"
      using fresh disj by (auto simp: dom_update)
    from Cons.IH [OF rest d this] True f new show ?thesis
      by (simp add: length_update_fresh)
  qed
qed

section \<open>Claims about the encoding\<close>

text \<open>
  C4, as the specification states it: every entry whose key is not a categorical
  attribute is in the output as a float. The loop encodes an entry only when its key is
  in \<^verbatim>\<open>self.model_features\<close>: with the fallback list, \<^verbatim>\<open>LotArea\<close> is present in the input
  and absent from the output.
\<close>

theorem unlisted_attribute_dropped:
  "encode_features example_builtins fallback_model_features
     [(''LotArea'', PyInt 8450), (''GrLivArea'', PyInt 1710)] = Inr [(''GrLivArea'', PyFloat 1710)]"
  by (simp add: encode_features_def fallback_model_features_def encode_value_def categorical_def float_int_limit_def)

text \<open>
  C4, amended: for every raw attribute map whose values for the non-categorical
  attributes of the reduced schema convert to float, encoding returns a map in which
  every entry whose key is in the reduced schema and is not categorical is mapped to its
  value as a float; a key outside the reduced schema is omitted, as is every attribute
  absent from the input.
\<close>

theorem numeric_pass_through:
  assumes "distinct (map fst features)"
    and "\<forall>(k, v) \<in> set features.
           k \<in> set mf \<longrightarrow> categorical k = None \<longrightarrow> (\<exists>r. py_float b v = Inr r)"
  shows "\<exists>enc. encode_features b mf features = Inr enc \<and>
           (\<forall>(k, v) \<in> set features.
              k \<in> set mf \<and> categorical k = None \<longrightarrow>
                (\<exists>r. py_float b v = Inr r \<and> map_of enc k = Some (PyFloat r))) \<and>
           (\<forall>k. k \<notin> set mf \<or> k \<notin> fst ` set features \<longrightarrow> map_of enc k = None)"
proof -
  have ok: "\<forall>(k, v) \<in> set features. k \<in> set mf \<longrightarrow> (\<exists>x. encode_value b k v = Inr x)"
  proof (clarify)
    fix k v assume kv: "(k, v) \<in> set features" and k: "k \<in> set mf"
    show "\<exists>x. encode_value b k v = Inr x"
    proof (cases "categorical k")
      case None
      with assms(2) kv k obtain r where "py_float b v = Inr r" by blast
      with None show ?thesis by (simp add: encode_value_def)
    next
      case (Some td)
      then show ?thesis by (cases td) (simp add: encode_value_def)
    qed
  qed
  from encode_loop_total [OF ok, of "[]"] obtain enc where
    enc: "encode_loop b mf features [] = Inr enc" by blast
  have pass: "\<exists>r. py_float b v = Inr r \<and> map_of enc k = Some (PyFloat r)"
    if kv: "(k, v) \<in> set features" and k: "k \<in> set mf" and c: "categorical k = None" for k v
  proof -
    from encode_loop_entry [OF enc assms(1) kv k] obtain x where
      x: "encode_value b k v = Inr x" "map_of enc k = Some x" by blast
    from x(1) c obtain r where "py_float b v = Inr r" "x = PyFloat r"
      by (auto simp: encode_value_def split: sum.splits)
    with x(2) show ?thesis by simp
  qed
  have omit: "map_of enc k = None" if "k \<notin> set mf \<or> k \<notin> fst ` set features" for k
    using encode_loop_other [OF enc that] by simp
  from enc pass omit show ?thesis
    unfolding encode_features_def by blast
qed

theorem numeric_pass_through_witness:
  "\<exists>enc. encode_features example_builtins fallback_model_features
            [(''GrLivArea'', PyInt 1710), (''LotArea'', PyInt 8450)] = Inr enc \<and>
         map_of enc ''GrLivArea'' = Some (PyFloat 1710) \<and> map_of enc ''LotArea'' = None"
proof -
  let ?fs = "[(''GrLivArea'', PyInt 1710), (''LotArea'', PyInt 8450)]"
  have d: "distinct (map fst ?fs)" by simp
  have c: "\<forall>(k, v) \<in> set ?fs. k \<in> set fallback_model_features \<longrightarrow> categorical k = None \<longrightarrow>
             (\<exists>r. py_float example_builtins v = Inr r)"
    by (simp add: float_int_limit_def)
  from numeric_pass_through [OF d c] obtain enc where
    enc: "encode_features example_builtins fallback_model_features ?fs = Inr enc"
    and pass: "\<forall>(k, v) \<in> set ?fs.
              k \<in> set fallback_model_features \<and> categorical k = None \<longrightarrow>
                (\<exists>r. py_float example_builtins v = Inr r \<and> map_of enc k = Some (PyFloat r))"
    and omit: "\<forall>k. k \<notin> set fallback_model_features \<or> k \<notin> fst ` set ?fs \<longrightarrow> map_of enc k = None"
    by blast
  from pass have "map_of enc ''GrLivArea'' = Some (PyFloat 1710)"
    by (simp add: fallback_model_features_def categorical_def float_int_limit_def)
  moreover from omit have "map_of enc ''LotArea'' = None"
    by (simp add: fallback_model_features_def)
  ultimately show ?thesis using enc by blast
qed

text \<open>
  C6: a map whose encoded attributes are all categorical is encoded without an
  exception, whatever the values are; a string has the ordinal of its attribute's table,
  and a string outside the table has the attribute's default ordinal.
\<close>

theorem total_encoding:
  assumes "distinct (map fst features)"
    and "\<forall>(k, v) \<in> set features. k \<in> set mf \<longrightarrow> categorical k \<noteq> None"
  shows "\<exists>enc. encode_features b mf features = Inr enc \<and>
           (\<forall>(k, v) \<in> set features. \<forall>tbl d s.
              k \<in> set mf \<and> categorical k = Some (tbl, d) \<and> v = PyStr s \<longrightarrow>
                map_of enc k = Some (PyInt (case map_of tbl s of Some n \<Rightarrow> n | None \<Rightarrow> d)))"
proof -
  have ok: "\<forall>(k, v) \<in> set features. k \<in> set mf \<longrightarrow> (\<exists>x. encode_value b k v = Inr x)"
    using assms(2) by (auto simp: encode_value_def split: option.splits)
  from encode_loop_total [OF ok, of "[]"] obtain enc where
    enc: "encode_loop b mf features [] = Inr enc" by blast
  have "map_of enc k = Some (PyInt (case map_of tbl s of Some n \<Rightarrow> n | None \<Rightarrow> d))"
    if kv: "(k, v) \<in> set features" and k: "k \<in> set mf"
      and c: "categorical k = Some (tbl, d)" and v: "v = PyStr s" for k v tbl d s
  proof -
    from encode_loop_entry [OF enc assms(1) kv k] obtain x where
      x: "encode_value b k v = Inr x" "map_of enc k = Some x" by blast
    from x(1) c v have "x = PyInt (case map_of tbl s of Some n \<Rightarrow> n | None \<Rightarrow> d)"
      by (simp add: encode_value_def)
    with x(2) show ?thesis by simp
  qed
  with enc show ?thesis unfolding encode_features_def by blast
qed

theorem total_encoding_witness:
  "\<exists>enc. encode_features example_builtins fallback_model_features
            [(''Neighborhood'', PyStr ''Atlantis''), (''MSZoning'', PyStr ''ZZ''),
             (''CentralAir'', PyStr ''Maybe''), (''KitchenQual'', PyStr ''Ex'')] = Inr enc \<and>
         map_of enc ''Neighborhood'' = Some (PyInt 12) \<and>
         map_of enc ''MSZoning'' = Some (PyInt 3) \<and>
         map_of enc ''CentralAir'' = Some (PyInt 1) \<and>
         map_of enc ''KitchenQual'' = Some (PyInt 4)"
proof -
  let ?fs = "[(''Neighborhood'', PyStr ''Atlantis''), (''MSZoning'', PyStr ''ZZ''),
             (''CentralAir'', PyStr ''Maybe''), (''KitchenQual'', PyStr ''Ex'')]"
  have d: "distinct (map fst ?fs)" by simp
  have c: "\<forall>(k, v) \<in> set ?fs. k \<in> set fallback_model_features \<longrightarrow> categorical k \<noteq> None"
    by (simp add: categorical_def)
  from total_encoding [OF d c, of example_builtins] obtain enc where
    enc: "encode_features example_builtins fallback_model_features ?fs = Inr enc"
    and dflt: "\<forall>(k, v) \<in> set ?fs. \<forall>tbl d s.
              k \<in> set fallback_model_features \<and> categorical k = Some (tbl, d) \<and> v = PyStr s \<longrightarrow>
                map_of enc k = Some (PyInt (case map_of tbl s of Some n \<Rightarrow> n | None \<Rightarrow> d))"
    by blast
  from dflt have "map_of enc ''Neighborhood'' = Some (PyInt 12)"
    "map_of enc ''MSZoning'' = Some (PyInt 3)"
    "map_of enc ''CentralAir'' = Some (PyInt 1)"
    "map_of enc ''KitchenQual'' = Some (PyInt 4)"
    by (simp_all add: fallback_model_features_def categorical_def)
  with enc show ?thesis by blast
qed

text \<open>
  C10, as the specification states it: a non-numeric value for a purely numeric
  attribute makes \<^verbatim>\<open>predict_price\<close> return 0 and an error. \<^verbatim>\<open>LotArea\<close> is purely numeric and
  is not in the fallback feature list, so the guard \<^verbatim>\<open>if feature in self.model_features\<close>
  drops its value before any conversion: the price is 1 and the info has no error.
\<close>

theorem unlisted_numeric_not_rejected:
  "predict_price example_builtins raw_predictor [(''LotArea'', PyStr ''abc'')] =
     Inr (1, [(''prediction'', IFloat 1),
              (''formatted_prediction'', IStr ''$1.00''),
              (''confidence'', IStr ''Medium''),
              (''input_features_count'', IInt 0),
              (''missing_features_count'', IInt 21),
              (''category'', IStr ''Budget (Under $150K)''),
              (''category_color'', IStr ''#e67e22'')])"
  by (simp add: predict_price_def predict_try_def encode_step_def encode_features_def
      raw_predictor_def fallback_model_features_def unit_model_def
      model_input_def raw_model_input_def
      get_prediction_info_def category_entries_def ensemble_entries_def
      example_builtins_def dict_get_def)

text \<open>
  C10, amended: with a loaded model, a string that \<^verbatim>\<open>float\<close> rejects, given for an
  attribute of the reduced schema that is not categorical, makes \<^verbatim>\<open>predict_price\<close> return
  0 and an info that holds only a non-empty error text; no exception reaches the caller.
\<close>

theorem coercion_failure_shape:
  assumes "model p = Some m" and "model_features p = Some mf"
    and "(k, PyStr s) \<in> set features" and "k \<in> set mf"
    and "categorical k = None" and "float_of_str b s = None"
  shows "\<exists>msg. predict_price b p features = Inr (0, [(''error'', IStr msg)]) \<and> msg \<noteq> []"
proof -
  from assms(5,6) have "encode_value b k (PyStr s) =
      Inl (Exn ''ValueError'' (''could not convert string to float: '' @ repr_str b s))"
    by (simp add: encode_value_def)
  from encode_loop_fails [OF assms(3,4) this, of "[]"] obtain e where
    "encode_loop b mf features [] = Inl e" and "str_exn e \<noteq> []" by blast
  with assms(1,2) show ?thesis
    by (simp add: predict_price_def predict_try_def encode_step_def encode_features_def)
qed

theorem coercion_failure_shape_witness:
  "predict_price example_builtins raw_predictor [(''GrLivArea'', PyStr ''abc'')]
     = Inr (0, [(''error'', IStr (''could not convert string to float: 'abc'' @ [CHR 0x27]))])"
proof -
  have m: "model raw_predictor = Some unit_model"
    and f: "model_features raw_predictor = Some fallback_model_features"
    by (simp_all add: raw_predictor_def)
  have i: "(''GrLivArea'', PyStr ''abc'') \<in> set [(''GrLivArea'', PyStr ''abc'')]" by simp
  have k: "''GrLivArea'' \<in> set fallback_model_features"
    by (simp add: fallback_model_features_def)
  have c: "categorical ''GrLivArea'' = None" by (simp add: categorical_def)
  have n: "float_of_str example_builtins ''abc'' = None" by (simp add: example_builtins_def)
  from coercion_failure_shape [OF m f i k c n] obtain msg where
    "predict_price example_builtins raw_predictor [(''GrLivArea'', PyStr ''abc'')]
       = Inr (0, [(''error'', IStr msg)])" by blast
  then show ?thesis
    by (simp add: predict_price_def predict_try_def encode_step_def encode_features_def
        raw_predictor_def fallback_model_features_def encode_value_def categorical_def float_int_limit_def
        example_builtins_def)
qed

section \<open>Claims about the prediction\<close>

lemma category_keys:
  "k \<noteq> ''category'' \<Longrightarrow> k \<noteq> ''category_color'' \<Longrightarrow> map_of (category_entries x) k = None"
  by (simp add: category_entries_def)

lemma interval_keys:
  "k \<noteq> ''std_deviation'' \<Longrightarrow> k \<noteq> ''confidence_interval'' \<Longrightarrow>
   map_of (interval_entries x s) k = None"
  by (simp add: interval_entries_def split: option.splits)

lemma ensemble_keys:
  "k \<noteq> ''std_deviation'' \<Longrightarrow> k \<noteq> ''confidence_interval'' \<Longrightarrow>
   map_of (ensemble_entries p row x) k = None"
  by (simp add: ensemble_entries_def interval_keys split: option.splits sum.splits)

lemma info_shape:
  assumes "get_prediction_info b p row x encoded = Inr info"
  shows "\<exists>mf. model_features p = Some mf \<and>
           info = [(''prediction'', IFloat x),
              (''formatted_prediction'', IStr (CHR ''$'' # fmt_money b x)),
              (''confidence'', IStr ''Medium''),
              (''input_features_count'', IInt (int (length encoded))),
              (''missing_features_count'', IInt (int (length mf) - int (length encoded)))]
             @ category_entries x @ ensemble_entries p row x"
proof (cases "model_features p")
  case None
  with assms show ?thesis by (simp add: get_prediction_info_def)
next
  case (Some mf)
  with assms show ?thesis by (simp add: get_prediction_info_def)
qed

lemma info_ensemble_key:
  assumes "get_prediction_info b p row x encoded = Inr info"
    and "k = ''std_deviation'' \<or> k = ''confidence_interval''"
  shows "map_of info k = map_of (ensemble_entries p row x) k"
proof -
  from info_shape [OF assms(1)] obtain mf :: "string list" where
    info: "info = [(''prediction'', IFloat x),
              (''formatted_prediction'', IStr (CHR ''$'' # fmt_money b x)),
              (''confidence'', IStr ''Medium''),
              (''input_features_count'', IInt (int (length encoded))),
              (''missing_features_count'', IInt (int (length mf) - int (length encoded)))]
             @ category_entries x @ ensemble_entries p row x"
    by blast
  have c: "map_of (category_entries x) k = None"
    using assms(2) by (auto simp: category_keys)
  show ?thesis
    unfolding info using assms(2) c
    by (auto simp: map_add_def split: option.splits)
qed

lemma info_base_key:
  assumes "get_prediction_info b p row x encoded = Inr info"
  shows "map_of info ''confidence'' = Some (IStr ''Medium'')"
    and "map_of info ''input_features_count'' = Some (IInt (int (length encoded)))"
    and "map_of info ''error'' = None"
proof -
  from info_shape [OF assms(1)] obtain mf :: "string list" where
    info: "info = [(''prediction'', IFloat x),
              (''formatted_prediction'', IStr (CHR ''$'' # fmt_money b x)),
              (''confidence'', IStr ''Medium''),
              (''input_features_count'', IInt (int (length encoded))),
              (''missing_features_count'', IInt (int (length mf) - int (length encoded)))]
             @ category_entries x @ ensemble_entries p row x"
    by blast
  show "map_of info ''confidence'' = Some (IStr ''Medium'')"
    unfolding info by (simp add: map_add_def category_keys ensemble_keys)
  show "map_of info ''input_features_count'' = Some (IInt (int (length encoded)))"
    unfolding info by (simp add: map_add_def category_keys ensemble_keys)
  show "map_of info ''error'' = None"
    unfolding info by (simp add: map_add_def category_keys ensemble_keys)
qed

lemma interval_present: "\<exists>v. map_of (interval_entries x s) ''confidence_interval'' = Some v"
  by (simp add: interval_entries_def split: option.splits)

lemma predict_success:
  assumes "predict_price b p features = Inr (price, info)"
    and "map_of info ''error'' = None"
  shows "\<exists>m encoded row y. model p = Some m \<and> encode_step b p features = Inr encoded \<and>
           model_input b p encoded = Inr row \<and> predict m row = Inr y \<and> price = exp y \<and>
           get_prediction_info b p row (exp y) encoded = Inr info"
proof -
  from assms(1) obtain m where m: "model p = Some m"
    by (auto simp: predict_price_def split: option.splits)
  from assms m have "\<exists>r. predict_try b p m features = Inr r"
    by (cases "predict_try b p m features") (auto simp: predict_price_def)
  with assms(1) m have t: "predict_try b p m features = Inr (price, info)"
    by (auto simp: predict_price_def)
  then show ?thesis
    using m by (auto simp: predict_try_def split: sum.splits)
qed

text \<open>
  C8: whenever \<^verbatim>\<open>predict_price\<close> returns without an error entry, the price is the
  exponential of what the model's \<^verbatim>\<open>predict\<close> returned on the model input built from the
  encoded attributes (floats being reals here, the equality is exact).
\<close>

theorem price_is_exp:
  assumes "predict_price b p features = Inr (price, info)"
    and "map_of info ''error'' = None"
  shows "\<exists>m encoded row y. model p = Some m \<and> encode_step b p features = Inr encoded \<and>
           model_input b p encoded = Inr row \<and> predict m row = Inr y \<and> price = exp y"
  using predict_success [OF assms] by blast

lemma scaled_prediction:
  "predict_price example_builtins scaled_predictor [(''GrLivArea'', PyInt 1710)] =
     Inr (1, [(''prediction'', IFloat 1),
              (''formatted_prediction'', IStr ''$1.00''),
              (''confidence'', IStr ''Medium''),
              (''input_features_count'', IInt 1),
              (''missing_features_count'', IInt 0),
              (''category'', IStr ''Budget (Under $150K)''),
              (''category_color'', IStr ''#e67e22'')])"
  by (simp add: predict_price_def predict_try_def encode_step_def encode_features_def
      scaled_predictor_def unit_model_def zero_scaler_def
      encode_value_def categorical_def float_int_limit_def model_input_def scaled_model_input_def
      create_full_feature_vector_def list_index_def take_columns_def
      get_prediction_info_def category_entries_def ensemble_entries_def
      example_builtins_def)

theorem price_is_exp_witness:
  "\<exists>m encoded row y. model scaled_predictor = Some m \<and>
      encode_step example_builtins scaled_predictor [(''GrLivArea'', PyInt 1710)] = Inr encoded \<and>
      model_input example_builtins scaled_predictor encoded = Inr row \<and>
      predict m row = Inr y \<and> (1::real) = exp y"
proof -
  have e: "map_of [(''prediction'', IFloat 1),
              (''formatted_prediction'', IStr ''$1.00''),
              (''confidence'', IStr ''Medium''),
              (''input_features_count'', IInt 1),
              (''missing_features_count'', IInt 0),
              (''category'', IStr ''Budget (Under $150K)''),
              (''category_color'', IStr ''#e67e22'')] ''error'' = None" by simp
  from price_is_exp [OF scaled_prediction e] show ?thesis .
qed

lemma fifteen_prediction:
  "predict_price example_builtins raw_predictor fifteen_features =
     Inr (1, [(''prediction'', IFloat 1),
              (''formatted_prediction'', IStr ''$1.00''),
              (''confidence'', IStr ''Medium''),
              (''input_features_count'', IInt 15),
              (''missing_features_count'', IInt 6),
              (''category'', IStr ''Budget (Under $150K)''),
              (''category_color'', IStr ''#e67e22'')])"
  by (simp add: predict_price_def predict_try_def encode_step_def encode_features_def
      raw_predictor_def fallback_model_features_def fifteen_features_def unit_model_def
      encode_value_def categorical_def float_int_limit_def model_input_def raw_model_input_def
      get_prediction_info_def category_entries_def ensemble_entries_def
      example_builtins_def dict_get_def)

text \<open>
  C3, as the specification states it: with fifteen attributes of the reduced schema the
  confidence label in the returned info is "High". \<^verbatim>\<open>_get_prediction_info\<close> stores the
  constant \<^verbatim>\<open>'Medium'\<close>.
\<close>

theorem fifteen_attributes_medium:
  "length fifteen_features = 15 \<and>
   predict_price example_builtins raw_predictor fifteen_features =
     Inr (1, [(''prediction'', IFloat 1),
              (''formatted_prediction'', IStr ''$1.00''),
              (''confidence'', IStr ''Medium''),
              (''input_features_count'', IInt 15),
              (''missing_features_count'', IInt 6),
              (''category'', IStr ''Budget (Under $150K)''),
              (''category_color'', IStr ''#e67e22'')])"
  using fifteen_prediction by (simp add: fifteen_features_def)

text \<open>
  C3, amended: the entry \<^verbatim>\<open>confidence\<close> of the info of a successful prediction is always
  "Medium"; the label that \<^verbatim>\<open>display_confidence_interval\<close> computes from that info is
  "High" when the caller supplied at least 15 attributes of the reduced schema and
  "Medium" otherwise.
\<close>

theorem confidence_label:
  assumes "predict_price b p features = Inr (price, info)"
    and "map_of info ''error'' = None"
    and "distinct (map fst features)"
  shows "map_of info ''confidence'' = Some (IStr ''Medium'') \<and>
         (\<exists>mf. model_features p = Some mf \<and>
            confidence_text info =
              Inr (if 15 \<le> length (filter (\<lambda>(k, v). k \<in> set mf) features)
                   then ''High'' else ''Medium''))"
proof -
  from predict_success [OF assms(1,2)] obtain encoded row y where
    enc: "encode_step b p features = Inr encoded"
    and info: "get_prediction_info b p row (exp y) encoded = Inr info"
    by blast
  from info obtain mf where mf: "model_features p = Some mf"
    by (auto simp: get_prediction_info_def split: option.splits)
  from enc mf have "encode_loop b mf features [] = Inr encoded"
    by (simp add: encode_step_def encode_features_def)
  from encode_loop_length [OF this assms(3)]
  have len: "length encoded = length (filter (\<lambda>(k, v). k \<in> set mf) features)" by simp
  have "confidence_text info =
      Inr (if 15 \<le> length encoded then ''High'' else ''Medium'')"
    by (simp add: confidence_text_def dict_get_def info_base_key(2) [OF info] split: bool.splits)
  with len mf info_base_key(1) [OF info] show ?thesis by simp
qed

theorem confidence_label_witness:
  "confidence_text [(''prediction'', IFloat 1),
              (''formatted_prediction'', IStr ''$1.00''),
              (''confidence'', IStr ''Medium''),
              (''input_features_count'', IInt 15),
              (''missing_features_count'', IInt 6),
              (''category'', IStr ''Budget (Under $150K)''),
              (''category_color'', IStr ''#e67e22'')] = Inr ''High''"
proof -
  let ?info = "[(''prediction'', IFloat 1),
              (''formatted_prediction'', IStr ''$1.00''),
              (''confidence'', IStr ''Medium''),
              (''input_features_count'', IInt 15),
              (''missing_features_count'', IInt 6),
              (''category'', IStr ''Budget (Under $150K)''),
              (''category_color'', IStr ''#e67e22'')]"
  have e: "map_of ?info ''error'' = None" by simp
  have d: "distinct (map fst fifteen_features)" by (simp add: fifteen_features_def)
  from confidence_label [OF fifteen_prediction e d] obtain mf where
    mf: "model_features raw_predictor = Some mf"
    and t: "confidence_text ?info =
              Inr (if 15 \<le> length (filter (\<lambda>(k, v). k \<in> set mf) fifteen_features)
                   then ''High'' else ''Medium'')"
    by blast
  from mf have "mf = fallback_model_features" by (simp add: raw_predictor_def)
  with t show ?thesis
    by (simp add: fallback_model_features_def fifteen_features_def)
qed

text \<open>
  C5, as the specification states it: without a normalization transform the info has
  no confidence interval. The interval depends on the model's \<^verbatim>\<open>estimators_\<close> only, so an
  ensemble model has it in degraded mode too.
\<close>

theorem degraded_interval_present:
  "scaler one_tree_predictor = None \<and> scaler_features one_tree_predictor = None \<and>
   predict_price example_builtins one_tree_predictor [(''GrLivArea'', PyInt 1710)] =
     Inr (1, [(''prediction'', IFloat 1),
              (''formatted_prediction'', IStr ''$1.00''),
              (''confidence'', IStr ''Medium''),
              (''input_features_count'', IInt 1),
              (''missing_features_count'', IInt 0),
              (''category'', IStr ''Budget (Under $150K)''),
              (''category_color'', IStr ''#e67e22''),
              (''std_deviation'', IFloat 0),
              (''confidence_interval'', IDict [(''lower'', IFloat 1), (''upper'', IFloat 1)])])"
  by (simp add: predict_price_def predict_try_def encode_step_def encode_features_def
      one_tree_predictor_def one_tree_model_def
      encode_value_def categorical_def float_int_limit_def model_input_def raw_model_input_def
      get_prediction_info_def category_entries_def ensemble_entries_def
      interval_entries_def np_std_def np_mean_def
      example_builtins_def dict_get_def)

text \<open>
  C5, amended: when the scaler's feature list is missing or empty, the model is loaded,
  the attributes encode and the model's \<^verbatim>\<open>predict\<close> succeeds on the row that holds, for each
  name of the reduced schema, the encoded value or 0, then \<^verbatim>\<open>predict_price\<close> returns the
  positive price \<open>exp y\<close> without an error entry; the scaler is never consulted; and the
  info has a confidence interval exactly when the model has sub-estimators that all
  predict on that row.
\<close>

theorem degraded_mode:
  assumes "model p = Some m" and "model_features p = Some mf"
    and "scaler_features p = None \<or> scaler_features p = Some []"
    and "encode_features b mf features = Inr encoded"
    and "predict m (map (\<lambda>f. dict_get encoded f (PyInt 0)) mf) = Inr y"
  shows "\<exists>info. predict_price b p features = Inr (exp y, info) \<and> 0 < exp y \<and>
           map_of info ''error'' = None \<and>
           (map_of info ''confidence_interval'' \<noteq> None \<longleftrightarrow>
              (\<exists>trees preds. estimators m = Some trees \<and>
                 collect (\<lambda>tree. tree (map (\<lambda>f. dict_get encoded f (PyInt 0)) mf)) trees = Inr preds)) \<and>
           (\<forall>sc. predict_price b (p\<lparr>scaler := sc\<rparr>) features = predict_price b p features)"
proof -
  let ?row = "map (\<lambda>f. dict_get encoded f (PyInt 0)) mf"
  have enc: "encode_step b p features = Inr encoded"
    using assms(2,4) by (simp add: encode_step_def)
  have row: "model_input b p encoded = Inr ?row"
    using assms(2,3) by (auto simp: model_input_def raw_model_input_def)
  obtain info where info: "get_prediction_info b p ?row (exp y) encoded = Inr info"
    using assms(2) by (simp add: get_prediction_info_def)
  have res: "predict_price b p features = Inr (exp y, info)"
    using assms(1,5) enc row info by (simp add: predict_price_def predict_try_def)
  have ci: "map_of info ''confidence_interval'' \<noteq> None \<longleftrightarrow>
      (\<exists>trees preds. estimators m = Some trees \<and> collect (\<lambda>tree. tree ?row) trees = Inr preds)"
    unfolding info_ensemble_key [OF info disjI2 [OF refl]]
    using assms(1)
    by (auto simp: ensemble_entries_def interval_present split: option.splits sum.splits)
  have same: "predict_price b (p\<lparr>scaler := sc\<rparr>) features = predict_price b p features" for sc
  proof -
    have e: "encode_step b (p\<lparr>scaler := sc\<rparr>) features = encode_step b p features"
      by (simp add: encode_step_def)
    have i: "model_input b (p\<lparr>scaler := sc\<rparr>) enc = model_input b p enc" for enc
      using assms(3) by (auto simp: model_input_def raw_model_input_def)
    have g: "get_prediction_info b (p\<lparr>scaler := sc\<rparr>) r x enc = get_prediction_info b p r x enc"
      for r x enc
      by (simp add: get_prediction_info_def ensemble_entries_def split: option.splits)
    have "predict_try b (p\<lparr>scaler := sc\<rparr>) m' features = predict_try b p m' features" for m'
      by (simp add: predict_try_def e i g split: sum.splits)
    then show ?thesis by (simp add: predict_price_def split: option.splits)
  qed
  from res ci same info_base_key(3) [OF info] show ?thesis by simp
qed

theorem degraded_mode_witness:
  "\<exists>info. predict_price example_builtins raw_predictor [(''GrLivArea'', PyInt 1710)] = Inr (1, info) \<and>
      map_of info ''error'' = None \<and> map_of info ''confidence_interval'' = None"
proof -
  let ?fs = "[(''GrLivArea'', PyInt 1710)]"
  let ?enc = "[(''GrLivArea'', PyFloat 1710)]"
  have m: "model raw_predictor = Some unit_model"
    and f: "model_features raw_predictor = Some fallback_model_features"
    and s: "scaler_features raw_predictor = None \<or> scaler_features raw_predictor = Some []"
    by (simp_all add: raw_predictor_def)
  have enc: "encode_features example_builtins fallback_model_features ?fs = Inr ?enc"
    by (simp add: encode_features_def fallback_model_features_def encode_value_def categorical_def float_int_limit_def)
  have y: "predict unit_model (map (\<lambda>f. dict_get ?enc f (PyInt 0)) fallback_model_features) = Inr 0"
    by (simp add: unit_model_def)
  from degraded_mode [OF m f s enc y] obtain info where
    r: "predict_price example_builtins raw_predictor ?fs = Inr (exp 0, info)"
    and e: "map_of info ''error'' = None"
    and ci: "map_of info ''confidence_interval'' \<noteq> None \<longleftrightarrow>
              (\<exists>trees preds. estimators unit_model = Some trees \<and>
                 collect (\<lambda>tree. tree (map (\<lambda>f. dict_get ?enc f (PyInt 0)) fallback_model_features)) trees
                   = Inr preds)"
    by blast
  from ci have "map_of info ''confidence_interval'' = None" by (simp add: unit_model_def)
  with r e show ?thesis by auto
qed

lemma two_thirds_root: "sqrt (16 / 9) = 4 / 3"
  by (rule real_sqrt_unique) (simp_all add: power2_eq_square)

lemma two_tree_prediction:
  "predict_price example_builtins two_tree_predictor [(''GrLivArea'', PyInt 1710)] =
     Inr (1, [(''prediction'', IFloat 1),
              (''formatted_prediction'', IStr ''$1.00''),
              (''confidence'', IStr ''Medium''),
              (''input_features_count'', IInt 1),
              (''missing_features_count'', IInt 0),
              (''category'', IStr ''Budget (Under $150K)''),
              (''category_color'', IStr ''#e67e22''),
              (''std_deviation'', IFloat (4 / 3)),
              (''confidence_interval'',
                 IDict [(''lower'', IInt 0), (''upper'', IFloat (1 + 1.96 * (4 / 3)))])])"
proof -
  have std: "np_std [1 / 3, 3] = Some (4 / 3)"
    by (simp add: np_std_def np_mean_def power2_eq_square two_thirds_root)
  have e: "exp (- ln 3) = (1 / 3 :: real)"
    by (simp add: exp_minus divide_simps)
  show ?thesis
    by (simp add: predict_price_def predict_try_def encode_step_def encode_features_def
      two_tree_predictor_def two_tree_model_def
      encode_value_def categorical_def float_int_limit_def model_input_def raw_model_input_def
      get_prediction_info_def category_entries_def ensemble_entries_def
      interval_entries_def example_builtins_def dict_get_def e std)
qed

text \<open>
  C9, as the specification states it: the interval uses the sample standard deviation.
  For two trees with the prices 1/3 and 3 the code stores the deviation 4/3 (divisor
  \<open>n\<close>), while the sample standard deviation (divisor \<open>n - 1\<close>) is \<open>sqrt (32/9)\<close>.
\<close>

theorem population_not_sample:
  "predict_price example_builtins two_tree_predictor [(''GrLivArea'', PyInt 1710)] =
     Inr (1, [(''prediction'', IFloat 1),
              (''formatted_prediction'', IStr ''$1.00''),
              (''confidence'', IStr ''Medium''),
              (''input_features_count'', IInt 1),
              (''missing_features_count'', IInt 0),
              (''category'', IStr ''Budget (Under $150K)''),
              (''category_color'', IStr ''#e67e22''),
              (''std_deviation'', IFloat (4 / 3)),
              (''confidence_interval'',
                 IDict [(''lower'', IInt 0), (''upper'', IFloat (1 + 1.96 * (4 / 3)))])]) \<and>
   sample_std [1 / 3, 3] = sqrt (32 / 9) \<and> sqrt (32 / 9) > (4 / 3 :: real)"
proof -
  have "sample_std [1 / 3, 3] = sqrt (32 / 9)"
    by (simp add: sample_std_def np_mean_def power2_eq_square)
  moreover have "sqrt (16 / 9) < sqrt (32 / 9)"
    by (rule real_sqrt_less_mono) simp
  ultimately show ?thesis
    using two_tree_prediction by (simp only: two_thirds_root simp_thms)
qed

text \<open>
  C9, amended: for a successful prediction with a model that has a non-empty list of
  sub-estimators: when every sub-estimator predicts on the model input, the info holds
  the standard deviation \<open>sigma\<close> with divisor \<open>n\<close> (the population standard deviation,
  numpy's default) of the exponentials of their predictions, and the interval from
  \<open>price - 1.96 * sigma\<close>, replaced by 0 when it is not positive, to
  \<open>price + 1.96 * sigma\<close>; when a sub-estimator raises, the info has no interval.
\<close>

theorem ensemble_interval:
  assumes "predict_price b p features = Inr (price, info)"
    and "map_of info ''error'' = None"
    and "model p = Some m" and "estimators m = Some trees" and "trees \<noteq> []"
  shows "\<exists>encoded row. encode_step b p features = Inr encoded \<and>
           model_input b p encoded = Inr row \<and>
           (case collect (\<lambda>tree. tree row) trees of
              Inl e \<Rightarrow> map_of info ''confidence_interval'' = None
            | Inr preds \<Rightarrow>
               (let xs = map exp preds;
                    n = real (length xs);
                    mu = sum_list xs / n;
                    sigma = sqrt (sum_list (map (\<lambda>x. (x - mu)\<^sup>2) xs) / n)
                in map_of info ''std_deviation'' = Some (IFloat sigma) \<and>
                   map_of info ''confidence_interval'' =
                     Some (IDict [(''lower'', if price - 1.96 * sigma > 0
                                              then IFloat (price - 1.96 * sigma) else IInt 0),
                                  (''upper'', IFloat (price + 1.96 * sigma))])))"
proof -
  from predict_success [OF assms(1,2)] obtain encoded row y where
    enc: "encode_step b p features = Inr encoded"
    and row: "model_input b p encoded = Inr row"
    and price: "price = exp y"
    and info: "get_prediction_info b p row (exp y) encoded = Inr info"
    by blast
  have len: "length preds = length trees"
    if "collect f trees = Inr preds" for f and preds :: "real list"
    using that by (induction trees arbitrary: preds) (auto split: sum.splits)
  have "case collect (\<lambda>tree. tree row) trees of
              Inl e \<Rightarrow> map_of info ''confidence_interval'' = None
            | Inr preds \<Rightarrow>
               (let xs = map exp preds;
                    n = real (length xs);
                    mu = sum_list xs / n;
                    sigma = sqrt (sum_list (map (\<lambda>x. (x - mu)\<^sup>2) xs) / n)
                in map_of info ''std_deviation'' = Some (IFloat sigma) \<and>
                   map_of info ''confidence_interval'' =
                     Some (IDict [(''lower'', if price - 1.96 * sigma > 0
                                              then IFloat (price - 1.96 * sigma) else IInt 0),
                                  (''upper'', IFloat (price + 1.96 * sigma))]))"
  proof (cases "collect (\<lambda>tree. tree row) trees")
    case (Inl e)
    then show ?thesis
      unfolding info_ensemble_key [OF info disjI2 [OF refl]]
      using assms(3,4) by (simp add: ensemble_entries_def)
  next
    case (Inr preds)
    from len [OF Inr] assms(5) have ne: "preds \<noteq> []" by auto
    show ?thesis
      unfolding info_ensemble_key [OF info disjI2 [OF refl]]
        info_ensemble_key [OF info disjI1 [OF refl]]
      using assms(3,4) Inr ne price
      by (simp add: ensemble_entries_def interval_entries_def np_std_def np_mean_def Let_def)
  qed
  with enc row show ?thesis by blast
qed

theorem ensemble_interval_witness:
  "\<exists>encoded row.
      encode_step example_builtins two_tree_predictor [(''GrLivArea'', PyInt 1710)] = Inr encoded \<and>
      model_input example_builtins two_tree_predictor encoded = Inr row \<and>
      collect (\<lambda>tree. tree row) [\<lambda>row. Inr (- ln 3), \<lambda>row. Inr (ln 3)]
        = (Inr [- ln 3, ln 3] :: exn + real list) \<and>
      sqrt (((1 / 3 - 5 / 3)\<^sup>2 + (3 - 5 / 3)\<^sup>2) / 2) = (4 / 3 :: real)"
proof -
  let ?info = "[(''prediction'', IFloat 1),
              (''formatted_prediction'', IStr ''$1.00''),
              (''confidence'', IStr ''Medium''),
              (''input_features_count'', IInt 1),
              (''missing_features_count'', IInt 0),
              (''category'', IStr ''Budget (Under $150K)''),
              (''category_color'', IStr ''#e67e22''),
              (''std_deviation'', IFloat (4 / 3)),
              (''confidence_interval'',
                 IDict [(''lower'', IInt 0), (''upper'', IFloat (1 + 1.96 * (4 / 3)))])]"
  let ?trees = "[\<lambda>row. Inr (- ln 3), \<lambda>row. Inr (ln 3)] :: (pyval list \<Rightarrow> exn + real) list"
  have e: "map_of ?info ''error'' = None" by simp
  have m: "model two_tree_predictor = Some two_tree_model"
    by (simp add: two_tree_predictor_def)
  have t: "estimators two_tree_model = Some ?trees" by (simp add: two_tree_model_def)
  have n: "?trees \<noteq> []" by simp
  from ensemble_interval [OF two_tree_prediction e m t n] obtain encoded row where
    enc: "encode_step example_builtins two_tree_predictor [(''GrLivArea'', PyInt 1710)] = Inr encoded"
    and row: "model_input example_builtins two_tree_predictor encoded = Inr row"
    and ci: "case collect (\<lambda>tree. tree row) ?trees of
              Inl e \<Rightarrow> map_of ?info ''confidence_interval'' = None
            | Inr preds \<Rightarrow>
               (let xs = map exp preds;
                    n = real (length xs);
                    mu = sum_list xs / n;
                    sigma = sqrt (sum_list (map (\<lambda>x. (x - mu)\<^sup>2) xs) / n)
                in map_of ?info ''std_deviation'' = Some (IFloat sigma) \<and>
                   map_of ?info ''confidence_interval'' =
                     Some (IDict [(''lower'', if 1 - 1.96 * sigma > 0
                                              then IFloat (1 - 1.96 * sigma) else IInt 0),
                                  (''upper'', IFloat (1 + 1.96 * sigma))]))"
    by blast
  have c: "collect (\<lambda>tree. tree row) ?trees = Inr [- ln 3, ln 3]" by simp
  have x: "exp (- ln 3) = (1 / 3 :: real)" by (simp add: exp_minus divide_simps)
  from ci have "sqrt (((1 / 3 - 5 / 3)\<^sup>2 + (3 - 5 / 3)\<^sup>2) / 2) = (4 / 3 :: real)"
    unfolding c by (simp add: Let_def x)
  with enc row c show ?thesis by blast
qed

end
